theory Spec2Isabelle
  imports Main "HOL-Library.Word"
begin

section \<open>JavaScript values\<close>

text \<open>
  The gateway of \<^verbatim>\<open>src/index.js\<close> handles dynamically typed values: the parsed request
  body, the object returned by the generation SDK, and the values it throws. They are modelled
  by one datatype. A property of an object is stored with the completion of reading it:
  \<open>Inr v\<close> for a data property (or a getter that returns \<open>v\<close>), \<open>Inl e\<close> for a getter that
  throws \<open>e\<close>. The association list of an object holds its enumerable properties in
  enumeration order, with distinct keys. A function value is modelled by the completion of
  calling it as a method. \<open>JError m\<close> is an \<^verbatim>\<open>Error\<close> instance whose \<^verbatim>\<open>message\<close> is \<open>m\<close>; that
  property is not enumerable.

  Numbers are the integers from \<open>- 2 ^ 53\<close> to \<open>2 ^ 53 - 1\<close>, held in a 54-bit word read as
  signed: each of them is a Number exactly, and \<^verbatim>\<open>Number::toString\<close> writes it in plain
  decimal. Strings are lists of 8-bit code units. Properties inherited from the standard
  prototypes are not represented: the program reads the keys \<^verbatim>\<open>candidates\<close>, \<^verbatim>\<open>content\<close>,
  \<^verbatim>\<open>parts\<close>, \<^verbatim>\<open>text\<close>, \<^verbatim>\<open>0\<close>, \<^verbatim>\<open>prompt\<close>, \<^verbatim>\<open>response\<close>, \<^verbatim>\<open>message\<close> and (inside
  \<^verbatim>\<open>JSON.stringify\<close>) \<^verbatim>\<open>toJSON\<close>, none of which a standard prototype of a non-error value
  defines.
\<close>

datatype jsval =
    JUndefined
  | JNull
  | JBool bool
  | JNum "54 word"
  | JStr string
  | JArr "jsval list"
  | JObj "(string \<times> (jsval + jsval)) list"
  | JFun "jsval + jsval"
  | JError string

type_synonym jsres = "jsval + jsval"

abbreviation Throws :: "jsval \<Rightarrow> jsval + 'a" where
  "Throws \<equiv> Inl"

abbreviation Returns :: "'a \<Rightarrow> jsval + 'a" where
  "Returns \<equiv> Inr"

text \<open>\<^verbatim>\<open>v == null\<close>: the test of \<^verbatim>\<open>?.\<close> and \<^verbatim>\<open>??\<close>.\<close>

fun nullish :: "jsval \<Rightarrow> bool" where
  "nullish JUndefined = True"
| "nullish JNull = True"
| "nullish _ = False"

text \<open>\<^verbatim>\<open>ToBoolean\<close>: the test of \<^verbatim>\<open>if (v)\<close> and \<^verbatim>\<open>!v\<close>.\<close>

fun truthy :: "jsval \<Rightarrow> bool" where
  "truthy JUndefined = False"
| "truthy JNull = False"
| "truthy (JBool b) = b"
| "truthy (JNum n) = (n \<noteq> 0)"
| "truthy (JStr s) = (s \<noteq> [])"
| "truthy _ = True"

fun show_nat :: "nat \<Rightarrow> string" where
  "show_nat n =
     (if n < 10 then [char_of (48 + n)]
      else show_nat (n div 10) @ [char_of (48 + n mod 10)])"

definition Number_toString :: "54 word \<Rightarrow> string" where
  "Number_toString n =
     (if sint n < 0 then CHR ''-'' # show_nat (nat (- sint n)) else show_nat (nat (sint n)))"

text \<open>A property key that is a canonical array index (\<^verbatim>\<open>"0"\<close>, \<^verbatim>\<open>"17"\<close>, not \<^verbatim>\<open>"01"\<close>).\<close>

definition is_digit :: "char \<Rightarrow> bool" where
  "is_digit c = (48 \<le> (of_char c :: nat) \<and> (of_char c :: nat) \<le> 57)"

definition array_index :: "string \<Rightarrow> nat option" where
  "array_index k =
     (if k \<noteq> [] \<and> list_all is_digit k \<and> (k = ''0'' \<or> hd k \<noteq> CHR ''0'')
      then Some (foldl (\<lambda>a c. 10 * a + (of_char c - 48)) 0 k)
      else None)"

text \<open>
  \<^verbatim>\<open>v.k\<close> and \<^verbatim>\<open>v[k]\<close>: reading a property of \<^verbatim>\<open>undefined\<close> or \<^verbatim>\<open>null\<close> throws a
  \<^verbatim>\<open>TypeError\<close> (the wording of its message is the engine's), a missing property reads as
  \<^verbatim>\<open>undefined\<close>, a getter may throw.
\<close>

fun Get :: "jsval \<Rightarrow> string \<Rightarrow> jsres" where
  "Get JUndefined k =
     Throws (JError (''Cannot read properties of undefined (reading '' @ [CHR 0x27] @ k
                     @ [CHR 0x27] @ '')''))"
| "Get JNull k =
     Throws (JError (''Cannot read properties of null (reading '' @ [CHR 0x27] @ k
                     @ [CHR 0x27] @ '')''))"
| "Get (JObj ps) k = (case map_of ps k of None \<Rightarrow> Returns JUndefined | Some r \<Rightarrow> r)"
| "Get (JArr xs) k =
     (case array_index k of
        Some i \<Rightarrow> Returns (if i < length xs then xs ! i else JUndefined)
      | None \<Rightarrow> Returns (if k = ''length'' then JNum (of_nat (length xs)) else JUndefined))"
| "Get (JStr s) k =
     (case array_index k of
        Some i \<Rightarrow> Returns (if i < length s then JStr [s ! i] else JUndefined)
      | None \<Rightarrow> Returns (if k = ''length'' then JNum (of_nat (length s)) else JUndefined))"
| "Get (JError m) k = Returns (if k = ''message'' then JStr m else JUndefined)"
| "Get v k = Returns JUndefined"

text \<open>One link \<^verbatim>\<open>v?.k\<close> of an optional chain.\<close>

definition optional_Get :: "jsval \<Rightarrow> string \<Rightarrow> jsres" where
  "optional_Get v k = (if nullish v then Returns JUndefined else Get v k)"

text \<open>
  \<^verbatim>\<open>v?.k()\<close>: nothing is read or called when \<open>v\<close> is nullish; otherwise the property is
  read and called, and calling a value that is not a function throws a \<^verbatim>\<open>TypeError\<close>.
\<close>

definition optional_Call :: "jsval \<Rightarrow> string \<Rightarrow> jsres" where
  "optional_Call v k =
     (if nullish v then Returns JUndefined
      else (case Get v k of
              Throws e \<Rightarrow> Throws e
            | Returns (JFun r) \<Rightarrow> r
            | Returns _ \<Rightarrow> Throws (JError (k @ '' is not a function''))))"

section \<open>\<^verbatim>\<open>JSON.stringify(value, null, 2)\<close>\<close>

text \<open>
  The serialisation of ECMA-262 (\<^verbatim>\<open>SerializeJSONProperty\<close>, \<^verbatim>\<open>SerializeJSONObject\<close>,
  \<^verbatim>\<open>SerializeJSONArray\<close>, \<^verbatim>\<open>QuoteJSONString\<close>) without replacer and with a gap of two
  spaces. Its result is a string, or \<^verbatim>\<open>undefined\<close> (\<open>None\<close>) for \<^verbatim>\<open>undefined\<close> and for
  functions; a getter or a \<^verbatim>\<open>toJSON\<close> method that throws makes it throw.
\<close>

definition hex_digit :: "nat \<Rightarrow> char" where
  "hex_digit n = ''0123456789abcdef'' ! (n mod 16)"

definition quote_char :: "char \<Rightarrow> string" where
  "quote_char c =
     (let n = (of_char c :: nat) in
      if n = 0x08 then [CHR 0x5C, CHR ''b'']
      else if n = 0x09 then [CHR 0x5C, CHR ''t'']
      else if n = 0x0A then [CHR 0x5C, CHR ''n'']
      else if n = 0x0C then [CHR 0x5C, CHR ''f'']
      else if n = 0x0D then [CHR 0x5C, CHR ''r'']
      else if n = 0x22 then [CHR 0x5C, CHR 0x22]
      else if n = 0x5C then [CHR 0x5C, CHR 0x5C]
      else if n < 0x20 then
        [CHR 0x5C, CHR ''u'', CHR ''0'', CHR ''0'', hex_digit (n div 16), hex_digit n]
      else [c])"

definition QuoteJSONString :: "string \<Rightarrow> string" where
  "QuoteJSONString s = CHR 0x22 # concat (map quote_char s) @ [CHR 0x22]"

definition gap :: string where
  "gap = ''  ''"

fun join :: "string \<Rightarrow> string list \<Rightarrow> string" where
  "join sep [] = []"
| "join sep [x] = x"
| "join sep (x # y # ys) = x @ sep @ join sep (y # ys)"

definition wrap :: "string \<Rightarrow> string \<Rightarrow> string \<Rightarrow> string list \<Rightarrow> string" where
  "wrap opn cls stepback partial =
     (if partial = [] then opn @ cls
      else let indent = stepback @ gap; separator = [CHR '','', CHR 0x0A] @ indent
           in opn @ [CHR 0x0A] @ indent @ join separator partial
                @ [CHR 0x0A] @ stepback @ cls)"

text \<open>An object with a callable \<^verbatim>\<open>toJSON\<close> is replaced by what that method returns.\<close>

definition toJSON_step :: "jsval \<Rightarrow> jsres" where
  "toJSON_step v =
     (case v of
        JObj ps \<Rightarrow>
          (case map_of ps ''toJSON'' of
             Some (Throws e) \<Rightarrow> Throws e
           | Some (Returns (JFun r)) \<Rightarrow> r
           | _ \<Rightarrow> Returns v)
      | _ \<Rightarrow> Returns v)"

lemma map_of_size:
  "map_of ps k = Some r \<Longrightarrow>
   size_sum size size r < Suc (size_list (size_prod (\<lambda>x. 0) (size_sum size size)) ps)"
  by (induction ps) (auto split: if_splits)

lemma toJSON_step_size: "toJSON_step v = Returns v' \<Longrightarrow> size v' \<le> size v"
  by (auto simp: toJSON_step_def split: jsval.splits option.splits sum.splits
      dest!: map_of_size)

function SerializeJSONProperty :: "string \<Rightarrow> jsval \<Rightarrow> jsval + string option"
  and SerializeJSONObject :: "string \<Rightarrow> (string \<times> jsres) list \<Rightarrow> jsval + string list"
  and SerializeJSONArray :: "string \<Rightarrow> jsval list \<Rightarrow> jsval + string list"
where
  "SerializeJSONProperty stepback v =
     (case toJSON_step v of
        Throws e \<Rightarrow> Throws e
      | Returns JNull \<Rightarrow> Returns (Some ''null'')
      | Returns (JBool b) \<Rightarrow> Returns (Some (if b then ''true'' else ''false''))
      | Returns (JStr s) \<Rightarrow> Returns (Some (QuoteJSONString s))
      | Returns (JNum n) \<Rightarrow> Returns (Some (Number_toString n))
      | Returns (JArr xs) \<Rightarrow>
          (case SerializeJSONArray (stepback @ gap) xs of
             Throws e \<Rightarrow> Throws e
           | Returns partial \<Rightarrow> Returns (Some (wrap ''['' '']'' stepback partial)))
      | Returns (JObj ps) \<Rightarrow>
          (case SerializeJSONObject (stepback @ gap) ps of
             Throws e \<Rightarrow> Throws e
           | Returns partial \<Rightarrow> Returns (Some (wrap ''{'' ''}'' stepback partial)))
      | Returns (JError m) \<Rightarrow> Returns (Some ''{}'')
      | Returns JUndefined \<Rightarrow> Returns None
      | Returns (JFun f) \<Rightarrow> Returns None)"
| "SerializeJSONObject indent [] = Returns []"
| "SerializeJSONObject indent ((k, r) # ps) =
     (case r of
        Throws e \<Rightarrow> Throws e
      | Returns v \<Rightarrow>
          (case SerializeJSONProperty indent v of
             Throws e \<Rightarrow> Throws e
           | Returns strP \<Rightarrow>
               (case SerializeJSONObject indent ps of
                  Throws e \<Rightarrow> Throws e
                | Returns partial \<Rightarrow>
                    (case strP of
                       None \<Rightarrow> Returns partial
                     | Some str \<Rightarrow>
                         Returns ((QuoteJSONString k @ '': '' @ str) # partial)))))"
| "SerializeJSONArray indent [] = Returns []"
| "SerializeJSONArray indent (x # xs) =
     (case SerializeJSONProperty indent x of
        Throws e \<Rightarrow> Throws e
      | Returns strP \<Rightarrow>
          (case SerializeJSONArray indent xs of
             Throws e \<Rightarrow> Throws e
           | Returns partial \<Rightarrow>
               Returns ((case strP of None \<Rightarrow> ''null'' | Some str \<Rightarrow> str) # partial)))"
  by pat_completeness auto
termination
  apply (relation "measure (\<lambda>a. case a of
            Inl (_, v) \<Rightarrow> size v
          | Inr (Inl (_, ps)) \<Rightarrow> size_list (size_prod (\<lambda>x. 0) (size_sum size size)) ps
          | Inr (Inr (_, xs)) \<Rightarrow> size_list size xs)")
  apply (auto dest!: toJSON_step_size)
  done

definition JSON_stringify :: "jsval \<Rightarrow> jsres" where
  "JSON_stringify v =
     (case SerializeJSONProperty [] v of
        Throws e \<Rightarrow> Throws e
      | Returns None \<Rightarrow> Returns JUndefined
      | Returns (Some s) \<Rightarrow> Returns (JStr s))"

section \<open>The response text extractor\<close>

text \<open>
  What the program does besides returning and answering, recorded in the order in which it
  does it: a part built by \<^verbatim>\<open>fileToGenerativePart\<close>, a call of \<^verbatim>\<open>model.generateContent\<close> with
  its argument, a call of \<^verbatim>\<open>console.error\<close> with its label and the error.
\<close>

datatype event =
    PartBuilt jsval
  | GenerateContent jsval
  | ConsoleError string jsval

text \<open>
  Path A, \<^verbatim>\<open>response?.candidates?.[0]?.content?.parts?.[0]?.text\<close>. Every link of the chain
  is optional, so a nullish link makes each later link, and the chain, \<^verbatim>\<open>undefined\<close>.
\<close>

definition path_A :: "jsval \<Rightarrow> jsres" where
  "path_A response =
     (case optional_Get response ''candidates'' of Throws e \<Rightarrow> Throws e | Returns candidates \<Rightarrow>
      case optional_Get candidates ''0'' of Throws e \<Rightarrow> Throws e | Returns candidate \<Rightarrow>
      case optional_Get candidate ''content'' of Throws e \<Rightarrow> Throws e | Returns content \<Rightarrow>
      case optional_Get content ''parts'' of Throws e \<Rightarrow> Throws e | Returns parts \<Rightarrow>
      case optional_Get parts ''0'' of Throws e \<Rightarrow> Throws e | Returns part \<Rightarrow>
      optional_Get part ''text'')"

text \<open>Path B, \<^verbatim>\<open>response?.text()\<close>.\<close>

definition path_B :: "jsval \<Rightarrow> jsres" where
  "path_B response = optional_Call response ''text''"

text \<open>
  The \<^verbatim>\<open>try\<close> block of \<^verbatim>\<open>extractText\<close>. First \<^verbatim>\<open>const text = A ?? B\<close>, where \<^verbatim>\<open>??\<close>
  evaluates its right operand only when the left one is \<^verbatim>\<open>undefined\<close> or \<^verbatim>\<open>null\<close>; then the
  test \<^verbatim>\<open>if (text)\<close> and the two \<^verbatim>\<open>return\<close>s.
\<close>

definition text_value :: "jsval \<Rightarrow> jsres" where
  "text_value response =
     (case path_A response of
        Throws e \<Rightarrow> Throws e
      | Returns a \<Rightarrow> if nullish a then path_B response else Returns a)"

definition extractText_try :: "jsval \<Rightarrow> jsres" where
  "extractText_try response =
     (case text_value response of
        Throws e \<Rightarrow> Throws e
      | Returns text \<Rightarrow>
          if truthy text then Returns text else JSON_stringify response)"

text \<open>\<^verbatim>\<open>extractText\<close>: the \<^verbatim>\<open>catch\<close> block logs the error and returns the fixed string.\<close>

definition extractText :: "jsval \<Rightarrow> event list \<times> jsres" where
  "extractText response =
     (case extractText_try response of
        Throws error \<Rightarrow>
          ([ConsoleError ''Error extracting text from response:'' error],
           Returns (JStr ''Failed to parse AI response.''))
      | Returns v \<Rightarrow> ([], Returns v))"

section \<open>The payload builder\<close>

text \<open>
  \<^verbatim>\<open>buffer.toString("base64")\<close>: the base64 encoding of RFC 4648 with padding, three bytes
  to four characters.
\<close>

type_synonym byte = "8 word"

definition base64_alphabet :: string where
  "base64_alphabet = ''ABCDEFGHIJKLMNOPQRSTUVWXYZabcdefghijklmnopqrstuvwxyz0123456789+/''"

definition base64_char :: "nat \<Rightarrow> char" where
  "base64_char i = base64_alphabet ! i"

fun base64_encode :: "byte list \<Rightarrow> string" where
  "base64_encode (a # b # c # rest) =
     (let x = unat a; y = unat b; z = unat c in
      [base64_char (x div 4),
       base64_char ((x mod 4) * 16 + y div 16),
       base64_char ((y mod 16) * 4 + z div 64),
       base64_char (z mod 64)] @ base64_encode rest)"
| "base64_encode [a, b] =
     (let x = unat a; y = unat b in
      [base64_char (x div 4),
       base64_char ((x mod 4) * 16 + y div 16),
       base64_char ((y mod 16) * 4),
       CHR ''=''])"
| "base64_encode [a] =
     (let x = unat a in
      [base64_char (x div 4), base64_char ((x mod 4) * 16), CHR ''='', CHR ''=''])"
| "base64_encode [] = []"

text \<open>
  The decoder of the same RFC, against which the round trip is stated: four characters to
  three bytes, \<^verbatim>\<open>=\<close> padding only in the last group, \<open>None\<close> on any other input.
\<close>

fun index_of :: "'a \<Rightarrow> 'a list \<Rightarrow> nat option" where
  "index_of c [] = None"
| "index_of c (x # xs) = (if c = x then Some 0 else map_option Suc (index_of c xs))"

definition base64_value :: "char \<Rightarrow> nat option" where
  "base64_value c = index_of c base64_alphabet"

fun base64_decode :: "string \<Rightarrow> byte list option" where
  "base64_decode [] = Some []"
| "base64_decode (c1 # c2 # c3 # c4 # rest) =
     (case (base64_value c1, base64_value c2) of
        (Some i, Some j) \<Rightarrow>
          if rest = [] \<and> c3 = CHR ''='' \<and> c4 = CHR ''=''
          then Some [of_nat (i * 4 + j div 16)]
          else (case base64_value c3 of
                  None \<Rightarrow> None
                | Some k \<Rightarrow>
                    if rest = [] \<and> c4 = CHR ''=''
                    then Some [of_nat (i * 4 + j div 16), of_nat ((j mod 16) * 16 + k div 4)]
                    else (case base64_value c4 of
                            None \<Rightarrow> None
                          | Some l \<Rightarrow>
                              map_option
                                (\<lambda>bytes. of_nat (i * 4 + j div 16)
                                   # of_nat ((j mod 16) * 16 + k div 4)
                                   # of_nat ((k mod 4) * 64 + l) # bytes)
                                (base64_decode rest)))
      | _ \<Rightarrow> None)"
| "base64_decode _ = None"

text \<open>\<^verbatim>\<open>fileToGenerativePart\<close>: the object \<^verbatim>\<open>{ inlineData: { data, mimeType } }\<close>.\<close>

definition fileToGenerativePart :: "byte list \<Rightarrow> string \<Rightarrow> jsval" where
  "fileToGenerativePart buffer mimeType =
     JObj [(''inlineData'',
            Returns (JObj [(''data'', Returns (JStr (base64_encode buffer))),
                           (''mimeType'', Returns (JStr mimeType))]))]"

section \<open>The request handlers\<close>

text \<open>
  A request as the handler sees it: \<^verbatim>\<open>req.body\<close>, and \<^verbatim>\<open>req.file\<close> (\<open>req_file\<close>) as the
  upload middleware leaves it (\<open>None\<close> for \<^verbatim>\<open>undefined\<close>). A handler either answers, with a status
  and the object given to \<^verbatim>\<open>res.json\<close>, or lets an exception escape. \<open>ErrorPage\<close> is the
  answer of the framework when a middleware passes an error on (\<^verbatim>\<open>next(err)\<close>) and, as here,
  no error handler is registered: the status and an HTML page for the error. The external call
  \<^verbatim>\<open>model.generateContent\<close> is a parameter: a function from its argument to the completion
  of awaiting it (\<open>Throws\<close> for a rejection).
\<close>

record upload =
  buffer :: "byte list"
  mimetype :: string

record request =
  body :: jsval
  req_file :: "upload option"

record response =
  status :: nat
  json :: jsval

datatype outcome = Responded response | Unhandled jsval | ErrorPage nat jsval

text \<open>
  \<^verbatim>\<open>try { ... } catch (error) { console.error(label, error);
  res.status(500).json({ error: error.message }); }\<close>
\<close>

definition try_catch :: "string \<Rightarrow> event list \<times> (jsval + response) \<Rightarrow> event list \<times> outcome" where
  "try_catch label block =
     (case block of
        (events, Returns sent) \<Rightarrow> (events, Responded sent)
      | (events, Throws error) \<Rightarrow>
          (case Get error ''message'' of
             Throws e \<Rightarrow> (events @ [ConsoleError label error], Unhandled e)
           | Returns message \<Rightarrow>
               (events @ [ConsoleError label error],
                Responded \<lparr>status = 500, json = JObj [(''error'', Returns message)]\<rparr>)))"

text \<open>
  The statements that every \<^verbatim>\<open>try\<close> block ends with, from the await of the external call
  on: \<^verbatim>\<open>const result = await model.generateContent(...); const aiResponse = await
  result.response; const generatedText = extractText(aiResponse);
  res.status(200).json({ generatedText });\<close>. The values of the model are not promises, so
  awaiting \<^verbatim>\<open>result.response\<close> is reading it.
\<close>

definition relay :: "event list \<Rightarrow> jsres \<Rightarrow> event list \<times> (jsval + response)" where
  "relay events awaited =
     (case awaited of
        Throws e \<Rightarrow> (events, Throws e)
      | Returns result \<Rightarrow>
          (case Get result ''response'' of
             Throws e \<Rightarrow> (events, Throws e)
           | Returns aiResponse \<Rightarrow>
               (case extractText aiResponse of
                  (logged, Throws e) \<Rightarrow> (events @ logged, Throws e)
                | (logged, Returns generatedText) \<Rightarrow>
                    (events @ logged,
                     Returns \<lparr>status = 200,
                              json = JObj [(''generatedText'', Returns generatedText)]\<rparr>))))"

text \<open>\<^verbatim>\<open>POST /generate-text\<close>. The destructuring of \<^verbatim>\<open>req.body\<close> is outside the \<^verbatim>\<open>try\<close>.\<close>

definition generate_text :: "(jsval \<Rightarrow> jsres) \<Rightarrow> request \<Rightarrow> event list \<times> outcome" where
  "generate_text generateContent req =
     (case Get (body req) ''prompt'' of
        Throws e \<Rightarrow> ([], Unhandled e)
      | Returns prompt \<Rightarrow>
          if \<not> truthy prompt then
            ([], Responded \<lparr>status = 400,
                              json = JObj [(''error'', Returns (JStr ''Prompt is required.''))]\<rparr>)
          else
            try_catch ''Error in /generate-text:''
              (relay [GenerateContent prompt] (generateContent prompt)))"

text \<open>
  \<^verbatim>\<open>POST /generate-from-image\<close>: \<^verbatim>\<open>contents\<close> starts as \<^verbatim>\<open>[imagePart]\<close> and a truthy prompt
  is put in front of it (\<^verbatim>\<open>unshift\<close>); the call is given \<^verbatim>\<open>{ contents }\<close>.
\<close>

definition generate_from_image :: "(jsval \<Rightarrow> jsres) \<Rightarrow> request \<Rightarrow> event list \<times> outcome" where
  "generate_from_image generateContent req =
     (case req_file req of
        None \<Rightarrow>
          ([], Responded \<lparr>status = 400,
                            json = JObj [(''error'', Returns (JStr ''Image file is required.''))]\<rparr>)
      | Some f \<Rightarrow>
          try_catch ''Error in /generate-from-image:''
            (case Get (body req) ''prompt'' of
               Throws e \<Rightarrow> ([], Throws e)
             | Returns prompt \<Rightarrow>
                 (let imagePart = fileToGenerativePart (buffer f) (mimetype f);
                      contents = (if truthy prompt then prompt # [imagePart] else [imagePart]);
                      arg = JObj [(''contents'', Returns (JArr contents))]
                  in relay [PartBuilt imagePart, GenerateContent arg] (generateContent arg))))"

text \<open>\<^verbatim>\<open>POST /generate-from-document\<close>.\<close>

definition generate_from_document :: "(jsval \<Rightarrow> jsres) \<Rightarrow> request \<Rightarrow> event list \<times> outcome" where
  "generate_from_document generateContent req =
     (case req_file req of
        None \<Rightarrow>
          ([], Responded \<lparr>status = 400,
                            json = JObj [(''error'',
                                          Returns (JStr ''Document file is required.''))]\<rparr>)
      | Some f \<Rightarrow>
          try_catch ''Error in /generate-from-document:''
            (case Get (body req) ''prompt'' of
               Throws e \<Rightarrow> ([], Throws e)
             | Returns prompt \<Rightarrow>
                 (let docPart = fileToGenerativePart (buffer f) (mimetype f);
                      contents = (if truthy prompt then prompt # [docPart] else [docPart]);
                      arg = JObj [(''contents'', Returns (JArr contents))]
                  in relay [PartBuilt docPart, GenerateContent arg] (generateContent arg))))"

text \<open>\<^verbatim>\<open>POST /generate-from-audio\<close>.\<close>

definition generate_from_audio :: "(jsval \<Rightarrow> jsres) \<Rightarrow> request \<Rightarrow> event list \<times> outcome" where
  "generate_from_audio generateContent req =
     (case req_file req of
        None \<Rightarrow>
          ([], Responded \<lparr>status = 400,
                            json = JObj [(''error'', Returns (JStr ''Audio file is required.''))]\<rparr>)
      | Some f \<Rightarrow>
          try_catch ''Error in /generate-from-audio:''
            (case Get (body req) ''prompt'' of
               Throws e \<Rightarrow> ([], Throws e)
             | Returns prompt \<Rightarrow>
                 (let audioPart = fileToGenerativePart (buffer f) (mimetype f);
                      contents = (if truthy prompt then prompt # [audioPart] else [audioPart]);
                      arg = JObj [(''contents'', Returns (JArr contents))]
                  in relay [PartBuilt audioPart, GenerateContent arg] (generateContent arg))))"

text \<open>
  The argument \<^verbatim>\<open>{ contents }\<close> that an upload handler gives to the external call, for the
  prompt it has read and the file it has got.
\<close>

definition contents_argument :: "jsval \<Rightarrow> upload \<Rightarrow> jsval" where
  "contents_argument prompt f =
     JObj [(''contents'',
            Returns (JArr (if truthy prompt
                           then prompt # [fileToGenerativePart (buffer f) (mimetype f)]
                           else [fileToGenerativePart (buffer f) (mimetype f)])))]"




text \<open>The arguments of the outbound calls a handler made, in order.\<close>

fun outbound_calls :: "event list \<Rightarrow> jsval list" where
  "outbound_calls [] = []"
| "outbound_calls (GenerateContent a # es) = a # outbound_calls es"
| "outbound_calls (e # es) = outbound_calls es"

section \<open>Example inputs\<close>

text \<open>\<^verbatim>\<open>{ candidates: [{ content: { parts: [{ text: t }] } }] }\<close> with further properties.\<close>

definition candidate_response :: "jsval \<Rightarrow> (string \<times> jsres) list \<Rightarrow> jsval" where
  "candidate_response t others =
     JObj ((''candidates'',
            Returns (JArr [JObj [(''content'',
              Returns (JObj [(''parts'', Returns (JArr [JObj [(''text'', Returns t)]]))]))]]))
           # others)"

text \<open>A method \<^verbatim>\<open>text() { return v; }\<close>.\<close>

definition text_method :: "jsval \<Rightarrow> string \<times> jsres" where
  "text_method v = (''text'', Returns (JFun (Returns v)))"

definition quota_exceeded :: "jsval \<Rightarrow> jsres" where
  "quota_exceeded arg = Throws (JError ''quota exceeded'')"

definition resolves_without_response :: "jsval \<Rightarrow> jsres" where
  "resolves_without_response arg = Returns (JObj [])"

definition png_upload :: upload where
  "png_upload = \<lparr>buffer = [0x4D, 0x61, 0x6E], mimetype = ''image/png''\<rparr>"

section \<open>Properties of the model\<close>

subsection \<open>Reading values and extracting text\<close>

lemma array_index_0: "array_index ''0'' = Some 0"
  by (simp add: array_index_def is_digit_def)

lemma path_A_candidate_response: "path_A (candidate_response t others) = Returns t"
  by (simp add: candidate_response_def path_A_def optional_Get_def array_index_0)

lemma path_B_text_method:
  "map_of ps ''text'' = Some (Returns (JFun r)) \<Longrightarrow> path_B (JObj ps) = r"
  by (simp add: path_B_def optional_Call_def)

lemma Get_Returns_not_nullish: "Get v k = Returns x \<Longrightarrow> \<not> nullish v"
  by (cases v) simp_all

lemma optional_Get_strict: "Get v k = Returns x \<Longrightarrow> optional_Get v k = Returns x"
  by (simp add: optional_Get_def Get_Returns_not_nullish)

lemma path_A_strict:
  assumes "Get response ''candidates'' = Returns candidates"
    and "Get candidates ''0'' = Returns candidate"
    and "Get candidate ''content'' = Returns content"
    and "Get content ''parts'' = Returns parts"
    and "Get parts ''0'' = Returns part"
    and "Get part ''text'' = Returns t"
  shows "path_A response = Returns t"
  using assms by (simp add: path_A_def optional_Get_strict)

lemma extractText_usable:
  "text_value response = Returns t \<Longrightarrow> truthy t \<Longrightarrow> extractText response = ([], Returns t)"
  by (simp add: extractText_def extractText_try_def)

lemma extractText_unusable:
  "text_value response = Returns t \<Longrightarrow> \<not> truthy t \<Longrightarrow>
   extractText_try response = JSON_stringify response"
  by (simp add: extractText_try_def)

lemma extractText_caught:
  "extractText_try response = Throws e \<Longrightarrow>
   extractText response =
     ([ConsoleError ''Error extracting text from response:'' e],
      Returns (JStr ''Failed to parse AI response.''))"
  by (simp add: extractText_def)

lemma JSON_stringify_cases:
  "(\<exists>e. JSON_stringify v = Throws e) \<or> JSON_stringify v = Returns JUndefined
     \<or> (\<exists>s. JSON_stringify v = Returns (JStr s))"
  by (auto simp: JSON_stringify_def split: sum.splits option.splits)

lemma extractText_Returns: "\<exists>v. snd (extractText response) = Returns v"
  by (simp add: extractText_def split: sum.splits)

subsection \<open>Base64\<close>

lemma index_of_nth: "distinct xs \<Longrightarrow> i < length xs \<Longrightarrow> index_of (xs ! i) xs = Some i"
proof (induction xs arbitrary: i)
  case Nil
  then show ?case by simp
next
  case (Cons x xs)
  show ?case
  proof (cases i)
    case 0
    then show ?thesis by simp
  next
    case (Suc j)
    with Cons.prems have "xs ! j \<noteq> x" "j < length xs" "distinct xs"
      by auto
    with Cons.IH [of j] Suc show ?thesis by simp
  qed
qed

lemma base64_alphabet_length: "length base64_alphabet = 64"
  by (simp add: base64_alphabet_def)

lemma base64_alphabet_distinct: "distinct base64_alphabet"
  by (simp add: base64_alphabet_def)

lemma base64_alphabet_no_pad: "CHR ''='' \<notin> set base64_alphabet"
  by (simp add: base64_alphabet_def)

lemma base64_value_char: "i < 64 \<Longrightarrow> base64_value (base64_char i) = Some i"
  by (simp add: base64_value_def base64_char_def index_of_nth
      base64_alphabet_distinct base64_alphabet_length)

lemma base64_char_no_pad: "i < 64 \<Longrightarrow> base64_char i \<noteq> CHR ''=''"
proof -
  assume "i < 64"
  then have "base64_alphabet ! i \<in> set base64_alphabet"
    by (simp add: base64_alphabet_length)
  with base64_alphabet_no_pad show ?thesis
    unfolding base64_char_def by metis
qed

lemma octet1:
  fixes x y :: nat
  assumes "y < 256"
  shows "(x div 4) * 4 + ((x mod 4) * 16 + y div 16) div 16 = x"
  using assms by (simp add: div_mult2_eq [symmetric])

lemma octet2:
  fixes x y z :: nat
  assumes "y < 256" "z < 256"
  shows "(((x mod 4) * 16 + y div 16) mod 16) * 16 + ((y mod 16) * 4 + z div 64) div 4 = y"
  using assms by (simp add: div_mult2_eq [symmetric])

lemma octet3:
  fixes y z :: nat
  assumes "z < 256"
  shows "(((y mod 16) * 4 + z div 64) mod 4) * 64 + z mod 64 = z"
  using assms by (simp add: div_mult2_eq [symmetric])

lemma unat_byte: "unat (a :: byte) < 256"
  using unsigned_less [of a] by simp

lemma decode_group:
  assumes "i < 64" "j < 64" "k < 64" "l < 64" "base64_decode rest = Some bs"
  shows "base64_decode (base64_char i # base64_char j # base64_char k # base64_char l # rest)
         = Some (of_nat (i * 4 + j div 16) # of_nat ((j mod 16) * 16 + k div 4)
                 # of_nat ((k mod 4) * 64 + l) # bs)"
  using assms by (simp add: base64_value_char base64_char_no_pad)

lemma decode_last2:
  assumes "i < 64" "j < 64" "k < 64"
  shows "base64_decode [base64_char i, base64_char j, base64_char k, CHR ''='']
         = Some [of_nat (i * 4 + j div 16), of_nat ((j mod 16) * 16 + k div 4)]"
  using assms by (simp add: base64_value_char base64_char_no_pad)

lemma decode_last1:
  assumes "i < 64" "j < 64"
  shows "base64_decode [base64_char i, base64_char j, CHR ''='', CHR ''='']
         = Some [of_nat (i * 4 + j div 16)]"
  using assms by (simp add: base64_value_char base64_char_no_pad)

lemma base64_roundtrip: "base64_decode (base64_encode bs) = Some bs"
proof (induction bs rule: base64_encode.induct)
  case (1 a b c rest)
  define x y z where "x = unat a" and "y = unat b" and "z = unat c"
  have lt: "x < 256" "y < 256" "z < 256"
    by (simp_all add: x_def y_def z_def unat_byte)
  have IH: "base64_decode (base64_encode rest) = Some rest"
    using 1 by simp
  have enc: "base64_encode (a # b # c # rest) =
      base64_char (x div 4) # base64_char ((x mod 4) * 16 + y div 16)
      # base64_char ((y mod 16) * 4 + z div 64) # base64_char (z mod 64) # base64_encode rest"
    by (simp add: x_def y_def z_def Let_def)
  have "base64_decode (base64_encode (a # b # c # rest)) =
      Some (of_nat ((x div 4) * 4 + ((x mod 4) * 16 + y div 16) div 16)
          # of_nat ((((x mod 4) * 16 + y div 16) mod 16) * 16 + ((y mod 16) * 4 + z div 64) div 4)
          # of_nat ((((y mod 16) * 4 + z div 64) mod 4) * 64 + z mod 64) # rest)"
    unfolding enc using lt by (intro decode_group IH) simp_all
  also have "\<dots> = Some (a # b # c # rest)"
    unfolding octet1 [OF lt(2)] octet2 [OF lt(2) lt(3)] octet3 [OF lt(3)]
    by (simp add: x_def y_def z_def)
  finally show ?case .
next
  case (2 a b)
  define x y where "x = unat a" and "y = unat b"
  have lt: "x < 256" "y < 256" "(0::nat) < 256"
    by (simp_all add: x_def y_def unat_byte)
  have enc: "base64_encode [a, b] =
      [base64_char (x div 4), base64_char ((x mod 4) * 16 + y div 16),
       base64_char ((y mod 16) * 4 + 0 div 64), CHR ''='']"
    by (simp add: x_def y_def Let_def)
  have "base64_decode (base64_encode [a, b]) =
      Some [of_nat ((x div 4) * 4 + ((x mod 4) * 16 + y div 16) div 16),
            of_nat ((((x mod 4) * 16 + y div 16) mod 16) * 16 + ((y mod 16) * 4 + 0 div 64) div 4)]"
    unfolding enc using lt by (intro decode_last2) simp_all
  also have "\<dots> = Some [a, b]"
    unfolding octet1 [OF lt(2)] octet2 [OF lt(2) lt(3)]
    by (simp add: x_def y_def)
  finally show ?case .
next
  case (3 a)
  define x where "x = unat a"
  have lt: "x < 256" "(0::nat) < 256"
    by (simp_all add: x_def unat_byte)
  have enc: "base64_encode [a] =
      [base64_char (x div 4), base64_char ((x mod 4) * 16 + 0 div 16), CHR ''='', CHR ''='']"
    by (simp add: x_def Let_def)
  have "base64_decode (base64_encode [a]) =
      Some [of_nat ((x div 4) * 4 + ((x mod 4) * 16 + 0 div 16) div 16)]"
    unfolding enc using lt by (intro decode_last1) simp_all
  also have "\<dots> = Some [a]"
    unfolding octet1 [OF lt(2)]
    by (simp add: x_def)
  finally show ?case .
next
  case 4
  show ?case by simp
qed

subsection \<open>Handlers\<close>

lemma extractText_logs: "extractText response = (logged, r) \<Longrightarrow> outbound_calls logged = []"
  by (auto simp: extractText_def split: sum.splits)

lemma outbound_calls_append: "outbound_calls (xs @ ys) = outbound_calls xs @ outbound_calls ys"
  by (induction xs rule: outbound_calls.induct) simp_all

lemma relay_calls: "outbound_calls (fst (relay events r)) = outbound_calls events"
  by (auto simp: relay_def outbound_calls_append extractText_logs split: sum.splits prod.splits)

lemma try_catch_calls: "outbound_calls (fst (try_catch label block)) = outbound_calls (fst block)"
  by (cases block) (simp add: try_catch_def outbound_calls_append split: sum.splits)

lemma generate_text_invalid:
  "Get (body req) ''prompt'' = Returns p \<Longrightarrow> \<not> truthy p \<Longrightarrow>
   generate_text gc req =
     ([], Responded \<lparr>status = 400,
                      json = JObj [(''error'', Returns (JStr ''Prompt is required.''))]\<rparr>)"
  by (simp add: generate_text_def)

lemma generate_from_image_invalid:
  "req_file req = None \<Longrightarrow>
   generate_from_image gc req =
     ([], Responded \<lparr>status = 400,
                      json = JObj [(''error'', Returns (JStr ''Image file is required.''))]\<rparr>)"
  by (simp add: generate_from_image_def)

lemma generate_from_document_invalid:
  "req_file req = None \<Longrightarrow>
   generate_from_document gc req =
     ([], Responded \<lparr>status = 400,
                      json = JObj [(''error'', Returns (JStr ''Document file is required.''))]\<rparr>)"
  by (simp add: generate_from_document_def)

lemma generate_from_audio_invalid:
  "req_file req = None \<Longrightarrow>
   generate_from_audio gc req =
     ([], Responded \<lparr>status = 400,
                      json = JObj [(''error'', Returns (JStr ''Audio file is required.''))]\<rparr>)"
  by (simp add: generate_from_audio_def)

text \<open>The argument \<^verbatim>\<open>{ contents }\<close> of the call of the three upload handlers.\<close>

lemma generate_text_calls:
  "outbound_calls (fst (generate_text gc req)) =
     (case Get (body req) ''prompt'' of
        Throws e \<Rightarrow> []
      | Returns p \<Rightarrow> if truthy p then [p] else [])"
  by (simp add: generate_text_def try_catch_calls relay_calls split: sum.splits)

lemma generate_from_image_calls:
  "outbound_calls (fst (generate_from_image gc req)) =
     (case req_file req of
        None \<Rightarrow> []
      | Some f \<Rightarrow>
          (case Get (body req) ''prompt'' of
             Throws e \<Rightarrow> []
           | Returns p \<Rightarrow>
               [JObj [(''contents'', Returns (JArr
                  (if truthy p then [p, fileToGenerativePart (buffer f) (mimetype f)]
                   else [fileToGenerativePart (buffer f) (mimetype f)])))]]))"
  by (simp add: generate_from_image_def Let_def try_catch_calls relay_calls
      split: sum.splits option.splits)

lemma generate_from_document_calls:
  "outbound_calls (fst (generate_from_document gc req)) =
     (case req_file req of
        None \<Rightarrow> []
      | Some f \<Rightarrow>
          (case Get (body req) ''prompt'' of
             Throws e \<Rightarrow> []
           | Returns p \<Rightarrow>
               [JObj [(''contents'', Returns (JArr
                  (if truthy p then [p, fileToGenerativePart (buffer f) (mimetype f)]
                   else [fileToGenerativePart (buffer f) (mimetype f)])))]]))"
  by (simp add: generate_from_document_def Let_def try_catch_calls relay_calls
      split: sum.splits option.splits)

lemma generate_from_audio_calls:
  "outbound_calls (fst (generate_from_audio gc req)) =
     (case req_file req of
        None \<Rightarrow> []
      | Some f \<Rightarrow>
          (case Get (body req) ''prompt'' of
             Throws e \<Rightarrow> []
           | Returns p \<Rightarrow>
               [JObj [(''contents'', Returns (JArr
                  (if truthy p then [p, fileToGenerativePart (buffer f) (mimetype f)]
                   else [fileToGenerativePart (buffer f) (mimetype f)])))]]))"
  by (simp add: generate_from_audio_def Let_def try_catch_calls relay_calls
      split: sum.splits option.splits)

lemma generate_text_rejected:
  assumes "Get (body req) ''prompt'' = Returns p" and "truthy p"
    and "gc p = Throws e" and "Get e ''message'' = Returns m"
  shows "generate_text gc req =
     ([GenerateContent p, ConsoleError ''Error in /generate-text:'' e],
      Responded \<lparr>status = 500, json = JObj [(''error'', Returns m)]\<rparr>)"
  using assms by (simp add: generate_text_def relay_def try_catch_def)

lemma relay_rejected:
  "Get e ''message'' = Returns m \<Longrightarrow>
   try_catch label (relay events (Throws e)) =
     (events @ [ConsoleError label e],
      Responded \<lparr>status = 500, json = JObj [(''error'', Returns m)]\<rparr>)"
  by (simp add: try_catch_def relay_def)

lemma generate_from_image_rejected:
  assumes "req_file req = Some f" and "Get (body req) ''prompt'' = Returns p"
    and "gc (contents_argument p f) = Throws e" and "Get e ''message'' = Returns m"
  shows "generate_from_image gc req =
     ([PartBuilt (fileToGenerativePart (buffer f) (mimetype f)),
       GenerateContent (contents_argument p f),
       ConsoleError ''Error in /generate-from-image:'' e],
      Responded \<lparr>status = 500, json = JObj [(''error'', Returns m)]\<rparr>)"
proof -
  have "generate_from_image gc req =
      try_catch ''Error in /generate-from-image:''
        (relay [PartBuilt (fileToGenerativePart (buffer f) (mimetype f)),
                GenerateContent (contents_argument p f)] (gc (contents_argument p f)))"
    using assms(1,2) by (simp add: generate_from_image_def Let_def contents_argument_def)
  with assms(3,4) show ?thesis
    by (simp add: relay_rejected)
qed

lemma generate_from_document_rejected:
  assumes "req_file req = Some f" and "Get (body req) ''prompt'' = Returns p"
    and "gc (contents_argument p f) = Throws e" and "Get e ''message'' = Returns m"
  shows "generate_from_document gc req =
     ([PartBuilt (fileToGenerativePart (buffer f) (mimetype f)),
       GenerateContent (contents_argument p f),
       ConsoleError ''Error in /generate-from-document:'' e],
      Responded \<lparr>status = 500, json = JObj [(''error'', Returns m)]\<rparr>)"
proof -
  have "generate_from_document gc req =
      try_catch ''Error in /generate-from-document:''
        (relay [PartBuilt (fileToGenerativePart (buffer f) (mimetype f)),
                GenerateContent (contents_argument p f)] (gc (contents_argument p f)))"
    using assms(1,2) by (simp add: generate_from_document_def Let_def contents_argument_def)
  with assms(3,4) show ?thesis
    by (simp add: relay_rejected)
qed

lemma generate_from_audio_rejected:
  assumes "req_file req = Some f" and "Get (body req) ''prompt'' = Returns p"
    and "gc (contents_argument p f) = Throws e" and "Get e ''message'' = Returns m"
  shows "generate_from_audio gc req =
     ([PartBuilt (fileToGenerativePart (buffer f) (mimetype f)),
       GenerateContent (contents_argument p f),
       ConsoleError ''Error in /generate-from-audio:'' e],
      Responded \<lparr>status = 500, json = JObj [(''error'', Returns m)]\<rparr>)"
proof -
  have "generate_from_audio gc req =
      try_catch ''Error in /generate-from-audio:''
        (relay [PartBuilt (fileToGenerativePart (buffer f) (mimetype f)),
                GenerateContent (contents_argument p f)] (gc (contents_argument p f)))"
    using assms(1,2) by (simp add: generate_from_audio_def Let_def contents_argument_def)
  with assms(3,4) show ?thesis
    by (simp add: relay_rejected)
qed



section \<open>The claims\<close>

text \<open>
  Claim C1. The claim lets the text accessor take over whenever path A yields \<^verbatim>\<open>null\<close>,
  \<^verbatim>\<open>undefined\<close> or the empty string. The operator \<^verbatim>\<open>??\<close> falls through on \<^verbatim>\<open>null\<close> and
  \<^verbatim>\<open>undefined\<close> only: with \<^verbatim>\<open>text: ""\<close> on path A and an accessor returning
  \<^verbatim>\<open>"fallback"\<close>, the accessor is not called and the result is the serialisation of the
  response, not \<^verbatim>\<open>"fallback"\<close>.
\<close>

theorem extractText_empty_path_A_counterexample:
  "path_A (candidate_response (JStr []) [text_method (JStr ''fallback'')]) = Returns (JStr [])
   \<and> path_B (candidate_response (JStr []) [text_method (JStr ''fallback'')])
       = Returns (JStr ''fallback'')
   \<and> snd (extractText (candidate_response (JStr []) [text_method (JStr ''fallback'')]))
       = JSON_stringify (candidate_response (JStr []) [text_method (JStr ''fallback'')])
   \<and> snd (extractText (candidate_response (JStr []) [text_method (JStr ''fallback'')]))
       \<noteq> Returns (JStr ''fallback'')"
proof (intro conjI)
  let ?r = "candidate_response (JStr []) [text_method (JStr ''fallback'')]"
  show A: "path_A ?r = Returns (JStr [])"
    by (rule path_A_candidate_response)
  show "path_B ?r = Returns (JStr ''fallback'')"
    by (simp add: candidate_response_def text_method_def path_B_text_method)
  have "text_value ?r = Returns (JStr [])"
    using A by (simp add: text_value_def)
  then have fallthrough: "extractText_try ?r = JSON_stringify ?r"
    by (simp add: extractText_unusable)
  have json: "\<exists>s. JSON_stringify ?r = Returns (JStr (CHR ''{'' # s))"
    by (simp add: candidate_response_def text_method_def JSON_stringify_def toJSON_step_def
        wrap_def gap_def QuoteJSONString_def quote_char_def)
  from fallthrough json show "snd (extractText ?r) = JSON_stringify ?r"
    by (auto simp: extractText_def)
  from fallthrough json show "snd (extractText ?r) \<noteq> Returns (JStr ''fallback'')"
    by (auto simp: extractText_def)
qed

text \<open>
  Claim C1, amended. When path A yields \<^verbatim>\<open>null\<close> or \<^verbatim>\<open>undefined\<close> and the text accessor of
  the response returns a non-empty string \<open>s\<close>, \<^verbatim>\<open>extractText\<close> returns \<open>s\<close>; in particular
  it returns \<^verbatim>\<open>"fallback"\<close> when path A is absent and \<^verbatim>\<open>response.text()\<close> returns
  \<^verbatim>\<open>"fallback"\<close>.
\<close>

theorem extractText_path_B:
  assumes "path_A response = Returns a" and "nullish a"
    and "path_B response = Returns (JStr s)" and "s \<noteq> []"
  shows "extractText response = ([], Returns (JStr s))"
proof -
  have "text_value response = Returns (JStr s)"
    using assms(1-3) by (simp add: text_value_def)
  then show ?thesis
    using assms(4) by (simp add: extractText_usable)
qed

theorem extractText_path_B_witness:
  "path_A (JObj [text_method (JStr ''fallback'')]) = Returns JUndefined
   \<and> extractText (JObj [text_method (JStr ''fallback'')]) = ([], Returns (JStr ''fallback''))"
proof -
  have A: "path_A (JObj [text_method (JStr ''fallback'')]) = Returns JUndefined"
    by (simp add: path_A_def optional_Get_def text_method_def)
  have B: "path_B (JObj [text_method (JStr ''fallback'')]) = Returns (JStr ''fallback'')"
    by (simp add: text_method_def path_B_text_method)
  show ?thesis
    using A extractText_path_B [OF A _ B] by simp
qed

text \<open>
  Claim C2. The extractor does not always return a string, as the claim and its own
  documentation (\<^verbatim>\<open>@returns {string}\<close>) say it does. Applied to \<^verbatim>\<open>undefined\<close>, which its
  \<^verbatim>\<open>response?.\<close> provides for, it returns \<^verbatim>\<open>undefined\<close>, because
  \<^verbatim>\<open>JSON.stringify(undefined, null, 2)\<close> is \<^verbatim>\<open>undefined\<close>; \<^verbatim>\<open>POST /generate-text\<close> gets there
  when the external call resolves to an object without \<^verbatim>\<open>response\<close>, and answers 200 with
  \<^verbatim>\<open>{ generatedText: undefined }\<close>. A truthy value on path A that is not a string, here
  \<^verbatim>\<open>true\<close>, is returned as it is.
\<close>

theorem extractText_returns_non_string:
  "extractText JUndefined = ([], Returns JUndefined)
   \<and> generate_text resolves_without_response
         \<lparr>body = JObj [(''prompt'', Returns (JStr ''hi''))], req_file = None\<rparr>
       = ([GenerateContent (JStr ''hi'')],
          Responded \<lparr>status = 200, json = JObj [(''generatedText'', Returns JUndefined)]\<rparr>)
   \<and> extractText (candidate_response (JBool True) []) = ([], Returns (JBool True))"
proof (intro conjI)
  show undef: "extractText JUndefined = ([], Returns JUndefined)"
    by (simp add: extractText_def extractText_try_def text_value_def path_A_def path_B_def
        optional_Get_def optional_Call_def JSON_stringify_def toJSON_step_def)
  have "relay [GenerateContent (JStr ''hi'')] (Returns (JObj [])) =
      ([GenerateContent (JStr ''hi'')],
       Returns \<lparr>status = 200, json = JObj [(''generatedText'', Returns JUndefined)]\<rparr>)"
    by (simp add: relay_def undef)
  then show "generate_text resolves_without_response
        \<lparr>body = JObj [(''prompt'', Returns (JStr ''hi''))], req_file = None\<rparr>
      = ([GenerateContent (JStr ''hi'')],
         Responded \<lparr>status = 200, json = JObj [(''generatedText'', Returns JUndefined)]\<rparr>)"
    by (simp add: generate_text_def resolves_without_response_def try_catch_def)
  have "text_value (candidate_response (JBool True) []) = Returns (JBool True)"
    by (simp add: text_value_def path_A_candidate_response)
  then show "extractText (candidate_response (JBool True) []) = ([], Returns (JBool True))"
    by (simp add: extractText_usable)
qed

text \<open>
  Claim C3. For every byte sequence \<open>b\<close> and MIME string \<open>m\<close>, \<^verbatim>\<open>fileToGenerativePart\<close>
  returns the object \<^verbatim>\<open>{ inlineData: { data, mimeType } }\<close> whose \<^verbatim>\<open>mimeType\<close> is \<open>m\<close> and
  whose \<^verbatim>\<open>data\<close> base64-decodes to exactly \<open>b\<close>. The function is total and its result is a
  value: there is nothing it can fail on and it has no effect.
\<close>

theorem fileToGenerativePart_roundtrip:
  "\<exists>d. fileToGenerativePart b m =
          JObj [(''inlineData'',
                 Returns (JObj [(''data'', Returns (JStr d)),
                                (''mimeType'', Returns (JStr m))]))]
       \<and> base64_decode d = Some b"
  by (simp add: fileToGenerativePart_def base64_roundtrip)

theorem fileToGenerativePart_roundtrip_witness:
  "fileToGenerativePart [0x4D, 0x61, 0x6E, 0x4D] ''image/png'' =
     JObj [(''inlineData'',
            Returns (JObj [(''data'', Returns (JStr ''TWFuTQ=='')),
                           (''mimeType'', Returns (JStr ''image/png''))]))]
   \<and> base64_decode ''TWFuTQ=='' = Some [0x4D, 0x61, 0x6E, 0x4D]"
proof -
  have enc: "base64_encode [0x4D, 0x61, 0x6E, 0x4D] = ''TWFuTQ==''"
    by (simp add: base64_char_def base64_alphabet_def)
  from fileToGenerativePart_roundtrip [of "[0x4D, 0x61, 0x6E, 0x4D]" "''image/png''"]
  obtain d where part: "fileToGenerativePart [0x4D, 0x61, 0x6E, 0x4D] ''image/png'' =
        JObj [(''inlineData'',
               Returns (JObj [(''data'', Returns (JStr d)),
                              (''mimeType'', Returns (JStr ''image/png''))]))]"
    and decoded: "base64_decode d = Some [0x4D, 0x61, 0x6E, 0x4D]"
    by blast
  from part have "d = ''TWFuTQ==''"
    unfolding fileToGenerativePart_def enc by simp
  with part decoded show ?thesis
    by blast
qed

text \<open>
  Claim C4. In each of the three upload handlers, with an uploaded file and the prompt \<open>p\<close>
  read from the body, exactly one outbound call is made, and its argument is
  \<^verbatim>\<open>{ contents: [p, B] }\<close> when \<open>p\<close> is truthy --- as a non-empty string is --- and
  \<^verbatim>\<open>{ contents: [B] }\<close> otherwise --- as when the prompt is absent ---, where \<open>B\<close> is the part
  built from the file: the prompt, when present, precedes the binary part.
\<close>

theorem upload_request_composition:
  assumes "req_file req = Some f" and "Get (body req) ''prompt'' = Returns p"
    and "B = fileToGenerativePart (buffer f) (mimetype f)"
    and "handler \<in> {generate_from_image, generate_from_document, generate_from_audio}"
  shows "outbound_calls (fst (handler gc req)) =
           [JObj [(''contents'', Returns (JArr (if truthy p then [p, B] else [B])))]]"
  using assms
  by (auto simp: generate_from_image_calls generate_from_document_calls
      generate_from_audio_calls)

theorem upload_request_composition_witness:
  "outbound_calls (fst (generate_from_image quota_exceeded
      \<lparr>body = JObj [(''prompt'', Returns (JStr ''describe''))], req_file = Some png_upload\<rparr>))
     = [JObj [(''contents'', Returns (JArr [JStr ''describe'',
          fileToGenerativePart [0x4D, 0x61, 0x6E] ''image/png'']))]]
   \<and> outbound_calls (fst (generate_from_audio quota_exceeded
      \<lparr>body = JObj [], req_file = Some png_upload\<rparr>))
     = [JObj [(''contents'', Returns (JArr [fileToGenerativePart [0x4D, 0x61, 0x6E] ''image/png'']))]]"
proof
  show "outbound_calls (fst (generate_from_image quota_exceeded
      \<lparr>body = JObj [(''prompt'', Returns (JStr ''describe''))], req_file = Some png_upload\<rparr>))
     = [JObj [(''contents'', Returns (JArr [JStr ''describe'',
          fileToGenerativePart [0x4D, 0x61, 0x6E] ''image/png'']))]]"
    using upload_request_composition
      [of "\<lparr>body = JObj [(''prompt'', Returns (JStr ''describe''))], req_file = Some png_upload\<rparr>"
        png_upload "JStr ''describe''" "fileToGenerativePart [0x4D, 0x61, 0x6E] ''image/png''"
        generate_from_image quota_exceeded]
    by (simp add: png_upload_def)
  show "outbound_calls (fst (generate_from_audio quota_exceeded
      \<lparr>body = JObj [], req_file = Some png_upload\<rparr>))
     = [JObj [(''contents'', Returns (JArr [fileToGenerativePart [0x4D, 0x61, 0x6E] ''image/png'']))]]"
    using upload_request_composition
      [of "\<lparr>body = JObj [], req_file = Some png_upload\<rparr>"
        png_upload JUndefined "fileToGenerativePart [0x4D, 0x61, 0x6E] ''image/png''"
        generate_from_audio quota_exceeded]
    by (simp add: png_upload_def)
qed

text \<open>
  Claim C5. When the strict path \<^verbatim>\<open>response.candidates[0].content.parts[0].text\<close> evaluates,
  link by link, to a non-empty string --- \<^verbatim>\<open>"hello"\<close> in the example ---, \<^verbatim>\<open>extractText\<close>
  returns that string, logs nothing, and neither the text accessor nor the serialisation
  has a say.
\<close>

theorem extractText_path_A:
  assumes "Get response ''candidates'' = Returns candidates"
    and "Get candidates ''0'' = Returns candidate"
    and "Get candidate ''content'' = Returns content"
    and "Get content ''parts'' = Returns parts"
    and "Get parts ''0'' = Returns part"
    and "Get part ''text'' = Returns (JStr s)"
    and "s \<noteq> []"
  shows "extractText response = ([], Returns (JStr s))"
proof -
  have "path_A response = Returns (JStr s)"
    using assms(1-6) by (rule path_A_strict)
  then have "text_value response = Returns (JStr s)"
    by (simp add: text_value_def)
  then show ?thesis
    using assms(7) by (simp add: extractText_usable)
qed

theorem extractText_path_A_witness:
  "extractText (candidate_response (JStr ''hello'') [text_method (JStr ''other'')])
     = ([], Returns (JStr ''hello''))"
proof -
  let ?part = "JObj [(''text'', Returns (JStr ''hello''))]"
  let ?content = "JObj [(''parts'', Returns (JArr [?part]))]"
  let ?candidate = "JObj [(''content'', Returns ?content)]"
  have 1: "Get (candidate_response (JStr ''hello'') [text_method (JStr ''other'')]) ''candidates''
      = Returns (JArr [?candidate])"
    by (simp add: candidate_response_def)
  have 2: "Get (JArr [?candidate]) ''0'' = Returns ?candidate"
    by (simp add: array_index_0)
  have 3: "Get ?candidate ''content'' = Returns ?content"
    by simp
  have 4: "Get ?content ''parts'' = Returns (JArr [?part])"
    by simp
  have 5: "Get (JArr [?part]) ''0'' = Returns ?part"
    by (simp add: array_index_0)
  have 6: "Get ?part ''text'' = Returns (JStr ''hello'')"
    by simp
  show ?thesis
    by (rule extractText_path_A [OF 1 2 3 4 5 6]) simp
qed

text \<open>
  Claim C6. A response whose path A yields the number 42 and whose text accessor returns the
  empty string has no non-empty string on either path, and nothing throws. The extractor
  returns the number 42: neither the serialisation of the response, as the claim says, nor a
  string, as its documentation says (\<^verbatim>\<open>@returns {string}\<close>, the text or the JSON string of the
  response).
\<close>

theorem extractText_truthy_number:
  "path_A (candidate_response (JNum 42) [text_method (JStr [])]) = Returns (JNum 42)
   \<and> path_B (candidate_response (JNum 42) [text_method (JStr [])]) = Returns (JStr [])
   \<and> extractText (candidate_response (JNum 42) [text_method (JStr [])])
       = ([], Returns (JNum 42))
   \<and> JSON_stringify (candidate_response (JNum 42) [text_method (JStr [])])
       \<noteq> Returns (JNum 42)"
proof (intro conjI)
  let ?r = "candidate_response (JNum 42) [text_method (JStr [])]"
  show A: "path_A ?r = Returns (JNum 42)"
    by (rule path_A_candidate_response)
  show "path_B ?r = Returns (JStr [])"
    by (simp add: candidate_response_def text_method_def path_B_text_method)
  have "text_value ?r = Returns (JNum 42)"
    using A by (simp add: text_value_def)
  then show "extractText ?r = ([], Returns (JNum 42))"
    by (simp add: extractText_usable)
  show "JSON_stringify ?r \<noteq> Returns (JNum 42)"
    using JSON_stringify_cases [of ?r] by auto
qed




text \<open>
  Claim C8. In each of the four handlers, a request that passes validation leads to the
  outbound call, and when that call rejects with an error whose \<^verbatim>\<open>message\<close> is \<open>m\<close>, the
  handler logs the error and answers 500 with \<^verbatim>\<open>{ error: m }\<close>; the call is made once and
  is not repeated.
\<close>

theorem external_failure_500:
  assumes "Get e ''message'' = Returns m"
    and "Get (body req) ''prompt'' = Returns p"
  shows "(truthy p \<and> gc p = Throws e \<longrightarrow>
            generate_text gc req =
              ([GenerateContent p, ConsoleError ''Error in /generate-text:'' e],
               Responded \<lparr>status = 500, json = JObj [(''error'', Returns m)]\<rparr>))
         \<and> (req_file req = Some f \<and> gc (contents_argument p f) = Throws e \<longrightarrow>
            generate_from_image gc req =
              ([PartBuilt (fileToGenerativePart (buffer f) (mimetype f)),
                GenerateContent (contents_argument p f),
                ConsoleError ''Error in /generate-from-image:'' e],
               Responded \<lparr>status = 500, json = JObj [(''error'', Returns m)]\<rparr>)
            \<and> generate_from_document gc req =
              ([PartBuilt (fileToGenerativePart (buffer f) (mimetype f)),
                GenerateContent (contents_argument p f),
                ConsoleError ''Error in /generate-from-document:'' e],
               Responded \<lparr>status = 500, json = JObj [(''error'', Returns m)]\<rparr>)
            \<and> generate_from_audio gc req =
              ([PartBuilt (fileToGenerativePart (buffer f) (mimetype f)),
                GenerateContent (contents_argument p f),
                ConsoleError ''Error in /generate-from-audio:'' e],
               Responded \<lparr>status = 500, json = JObj [(''error'', Returns m)]\<rparr>))"
proof (intro conjI impI)
  assume "truthy p \<and> gc p = Throws e"
  with assms show "generate_text gc req =
      ([GenerateContent p, ConsoleError ''Error in /generate-text:'' e],
       Responded \<lparr>status = 500, json = JObj [(''error'', Returns m)]\<rparr>)"
    by (simp add: generate_text_rejected)
next
  assume up: "req_file req = Some f \<and> gc (contents_argument p f) = Throws e"
  from up assms show "generate_from_image gc req =
      ([PartBuilt (fileToGenerativePart (buffer f) (mimetype f)),
        GenerateContent (contents_argument p f),
        ConsoleError ''Error in /generate-from-image:'' e],
       Responded \<lparr>status = 500, json = JObj [(''error'', Returns m)]\<rparr>)"
    by (simp add: generate_from_image_rejected)
  from up assms show "generate_from_document gc req =
      ([PartBuilt (fileToGenerativePart (buffer f) (mimetype f)),
        GenerateContent (contents_argument p f),
        ConsoleError ''Error in /generate-from-document:'' e],
       Responded \<lparr>status = 500, json = JObj [(''error'', Returns m)]\<rparr>)"
    by (simp add: generate_from_document_rejected)
  from up assms show "generate_from_audio gc req =
      ([PartBuilt (fileToGenerativePart (buffer f) (mimetype f)),
        GenerateContent (contents_argument p f),
        ConsoleError ''Error in /generate-from-audio:'' e],
       Responded \<lparr>status = 500, json = JObj [(''error'', Returns m)]\<rparr>)"
    by (simp add: generate_from_audio_rejected)
qed

theorem external_failure_500_witness:
  "snd (generate_text quota_exceeded
         \<lparr>body = JObj [(''prompt'', Returns (JStr ''hi''))], req_file = Some png_upload\<rparr>) =
     Responded \<lparr>status = 500, json = JObj [(''error'', Returns (JStr ''quota exceeded''))]\<rparr>
   \<and> snd (generate_from_image quota_exceeded
         \<lparr>body = JObj [(''prompt'', Returns (JStr ''hi''))], req_file = Some png_upload\<rparr>) =
     Responded \<lparr>status = 500, json = JObj [(''error'', Returns (JStr ''quota exceeded''))]\<rparr>
   \<and> snd (generate_from_document quota_exceeded
         \<lparr>body = JObj [(''prompt'', Returns (JStr ''hi''))], req_file = Some png_upload\<rparr>) =
     Responded \<lparr>status = 500, json = JObj [(''error'', Returns (JStr ''quota exceeded''))]\<rparr>
   \<and> snd (generate_from_audio quota_exceeded
         \<lparr>body = JObj [(''prompt'', Returns (JStr ''hi''))], req_file = Some png_upload\<rparr>) =
     Responded \<lparr>status = 500, json = JObj [(''error'', Returns (JStr ''quota exceeded''))]\<rparr>"
proof -
  let ?req = "\<lparr>body = JObj [(''prompt'', Returns (JStr ''hi''))], req_file = Some png_upload\<rparr>"
  have m: "Get (JError ''quota exceeded'') ''message'' = Returns (JStr ''quota exceeded'')"
    by simp
  have p: "Get (body ?req) ''prompt'' = Returns (JStr ''hi'')"
    by simp
  from external_failure_500 [OF m p, of quota_exceeded png_upload]
  show ?thesis
    by (simp add: quota_exceeded_def)
qed

text \<open>
  Claim C9. When validation fails --- the prompt of \<^verbatim>\<open>/generate-text\<close> is missing or falsy,
  the file of an upload handler is missing --- the handler answers 400 and has done nothing
  else: no part was built, no outbound call was made, nothing was logged.
\<close>

theorem validation_before_call:
  "(Get (body req) ''prompt'' = Returns p \<and> \<not> truthy p \<longrightarrow>
      fst (generate_text gc req) = []
      \<and> (\<exists>b. snd (generate_text gc req) = Responded \<lparr>status = 400, json = b\<rparr>))
   \<and> (req_file req = None \<longrightarrow>
      fst (generate_from_image gc req) = []
      \<and> (\<exists>b. snd (generate_from_image gc req) = Responded \<lparr>status = 400, json = b\<rparr>)
      \<and> fst (generate_from_document gc req) = []
      \<and> (\<exists>b. snd (generate_from_document gc req) = Responded \<lparr>status = 400, json = b\<rparr>)
      \<and> fst (generate_from_audio gc req) = []
      \<and> (\<exists>b. snd (generate_from_audio gc req) = Responded \<lparr>status = 400, json = b\<rparr>))"
  by (simp add: generate_text_invalid generate_from_image_invalid
      generate_from_document_invalid generate_from_audio_invalid)

theorem validation_before_call_witness:
  "fst (generate_text quota_exceeded \<lparr>body = JObj [(''prompt'', Returns JNull)], req_file = None\<rparr>) = []
   \<and> fst (generate_from_image quota_exceeded \<lparr>body = JObj [], req_file = None\<rparr>) = []
   \<and> fst (generate_from_document quota_exceeded \<lparr>body = JObj [], req_file = None\<rparr>) = []
   \<and> fst (generate_from_audio quota_exceeded \<lparr>body = JObj [], req_file = None\<rparr>) = []"
  using validation_before_call
      [of "\<lparr>body = JObj [(''prompt'', Returns JNull)], req_file = None\<rparr>" JNull quota_exceeded]
    validation_before_call [of "\<lparr>body = JObj [], req_file = None\<rparr>" JUndefined quota_exceeded]
  by simp

text \<open>
  Claim C10. \<^verbatim>\<open>POST /generate-text\<close> with the empty string as prompt answers 400 with
  \<^verbatim>\<open>{ error: "Prompt is required." }\<close>, and the prompt is not forwarded: no outbound call
  is made.
\<close>

theorem empty_prompt_400:
  assumes "Get (body req) ''prompt'' = Returns (JStr [])"
  shows "generate_text gc req =
           ([], Responded \<lparr>status = 400,
                            json = JObj [(''error'', Returns (JStr ''Prompt is required.''))]\<rparr>)"
  using assms by (simp add: generate_text_invalid)

theorem empty_prompt_400_witness:
  "generate_text quota_exceeded \<lparr>body = JObj [(''prompt'', Returns (JStr []))], req_file = None\<rparr>
     = ([], Responded \<lparr>status = 400,
                       json = JObj [(''error'', Returns (JStr ''Prompt is required.''))]\<rparr>)"
  by (rule empty_prompt_400) simp

end
